theory Spec2Isabelle
  imports Complex_Main
begin

section \<open>Geometry: Eigen vectors and rigid transforms\<close>

text \<open>
  The C++ code computes with \<open>double\<close>. The model idealises \<open>double\<close> as \<open>real\<close>: nothing
  proved below depends on rounding, and no theorem speaks about NaN or infinities.
  \<open>Eigen::Vector3d\<close> is a triple, a 3x3 matrix is the triple of its rows, and
  \<open>Transform\<close> (\<open>Eigen::Isometry3d\<close>) is its linear part and its translation.
\<close>

type_synonym Vector3d = "real \<times> real \<times> real"
type_synonym Vector3i = "int \<times> int \<times> int"
type_synonym Matrix3d = "Vector3d \<times> Vector3d \<times> Vector3d"

record Transform =
  linear :: Matrix3d
  translation :: Vector3d

definition Vector3d_Zero :: Vector3d where
  "Vector3d_Zero = (0, 0, 0)"

definition Vector3d_Constant :: "real \<Rightarrow> Vector3d" where
  "Vector3d_Constant c = (c, c, c)"

fun vadd :: "Vector3d \<Rightarrow> Vector3d \<Rightarrow> Vector3d" where
  "vadd (a, b, c) (x, y, z) = (a + x, b + y, c + z)"

fun vscale :: "real \<Rightarrow> Vector3d \<Rightarrow> Vector3d" where
  "vscale k (x, y, z) = (k * x, k * y, k * z)"

fun vdot :: "Vector3d \<Rightarrow> Vector3d \<Rightarrow> real" where
  "vdot (a, b, c) (x, y, z) = a * x + b * y + c * z"

fun mat_vec :: "Matrix3d \<Rightarrow> Vector3d \<Rightarrow> Vector3d" where
  "mat_vec (r1, r2, r3) v = (vdot r1 v, vdot r2 v, vdot r3 v)"

fun mat_cols :: "Matrix3d \<Rightarrow> Matrix3d" where
  "mat_cols ((a, b, c), (d, e, f), (g, h, i)) = ((a, d, g), (b, e, h), (c, f, i))"

fun mat_mul :: "Matrix3d \<Rightarrow> Matrix3d \<Rightarrow> Matrix3d" where
  "mat_mul (r1, r2, r3) m =
     (case mat_cols m of (c1, c2, c3) \<Rightarrow>
        ((vdot r1 c1, vdot r1 c2, vdot r1 c3),
         (vdot r2 c1, vdot r2 c2, vdot r2 c3),
         (vdot r3 c1, vdot r3 c2, vdot r3 c3)))"

definition Matrix3d_Identity :: Matrix3d where
  "Matrix3d_Identity = ((1, 0, 0), (0, 1, 0), (0, 0, 1))"

definition Transform_Identity :: Transform where
  "Transform_Identity = \<lparr>linear = Matrix3d_Identity, translation = Vector3d_Zero\<rparr>"

text \<open>\<open>A * B\<close> on transforms: first \<open>B\<close>, then \<open>A\<close>.\<close>

definition Transform_mul :: "Transform \<Rightarrow> Transform \<Rightarrow> Transform" where
  "Transform_mul A B =
     \<lparr>linear = mat_mul (linear A) (linear B),
      translation = vadd (mat_vec (linear A) (translation B)) (translation A)\<rparr>"

text \<open>\<open>T * v\<close> on a point.\<close>

definition Transform_apply :: "Transform \<Rightarrow> Vector3d \<Rightarrow> Vector3d" where
  "Transform_apply T v = vadd (mat_vec (linear T) v) (translation T)"

definition translate :: "Vector3d \<Rightarrow> Transform" where
  "translate v = \<lparr>linear = Matrix3d_Identity, translation = v\<rparr>"



section \<open>Open3D point clouds\<close>

text \<open>
  \<open>open3d::geometry::PointCloud\<close>: the points and the parallel, optional normals and
  colours. The operations below are the ones \<open>Submap.cpp\<close> calls whose result the
  properties depend on; the numerical algorithms of Open3D (normal estimation, voxel
  down-sampling, FPFH) are parameters of the model, see \<open>Helpers\<close>.
\<close>

record PointCloud =
  points :: "Vector3d list"
  normals :: "Vector3d list"
  colors :: "Vector3d list"

definition PointCloud_empty :: PointCloud where
  "PointCloud_empty = \<lparr>points = [], normals = [], colors = []\<rparr>"

definition IsEmpty :: "PointCloud \<Rightarrow> bool" where
  "IsEmpty pc = (points pc = [])"

definition HasNormals :: "PointCloud \<Rightarrow> bool" where
  "HasNormals pc = (points pc \<noteq> [] \<and> length (normals pc) = length (points pc))"

definition HasColors :: "PointCloud \<Rightarrow> bool" where
  "HasColors pc = (points pc \<noteq> [] \<and> length (colors pc) = length (points pc))"

text \<open>\<open>a += b\<close>: nothing happens for an empty \<open>b\<close>; an attribute survives only when both
  sides carry it (or the left side has no points yet).\<close>

definition PointCloud_add :: "PointCloud \<Rightarrow> PointCloud \<Rightarrow> PointCloud" where
  "PointCloud_add a b =
     (if IsEmpty b then a
      else \<lparr>points = points a @ points b,
            normals = (if (points a = [] \<or> HasNormals a) \<and> HasNormals b
                       then take (length (points a)) (normals a) @ normals b else []),
            colors = (if (points a = [] \<or> HasColors a) \<and> HasColors b
                      then take (length (points a)) (colors a) @ colors b else [])\<rparr>)"

text \<open>\<open>pc.Transform(T.matrix())\<close>: points are moved, normals are rotated.\<close>

definition PointCloud_Transform :: "Transform \<Rightarrow> PointCloud \<Rightarrow> PointCloud" where
  "PointCloud_Transform T pc =
     pc\<lparr>points := map (Transform_apply T) (points pc),
        normals := map (mat_vec (linear T)) (normals pc)\<rparr>"

text \<open>\<open>GetCenter\<close>: the mean of the points, zero for an empty cloud.\<close>

definition GetCenter :: "PointCloud \<Rightarrow> Vector3d" where
  "GetCenter pc =
     (if points pc = [] then Vector3d_Zero
      else vscale (1 / real (length (points pc))) (foldl vadd Vector3d_Zero (points pc)))"

definition select_idx :: "'a list \<Rightarrow> nat list \<Rightarrow> 'a list" where
  "select_idx xs idxs = map (\<lambda>i. xs ! i) (filter (\<lambda>i. i < length xs) idxs)"

definition SelectByIndex :: "PointCloud \<Rightarrow> nat list \<Rightarrow> PointCloud" where
  "SelectByIndex pc idxs =
     \<lparr>points = select_idx (points pc) idxs,
      normals = (if HasNormals pc then select_idx (normals pc) idxs else []),
      colors = (if HasColors pc then select_idx (colors pc) idxs else [])\<rparr>"

text \<open>Modelled from the spec: \<open>o3d_slam::transform(mat, cloud)\<close> of helpers is not among
  the sources; the spec says that it transforms the scan to the world frame. It gives a
  transformed copy.\<close>

definition transform_cloud :: "Transform \<Rightarrow> PointCloud \<Rightarrow> PointCloud" where
  "transform_cloud T pc = PointCloud_Transform T pc"

definition drop_idx :: "'a list \<Rightarrow> nat list \<Rightarrow> 'a list" where
  "drop_idx xs idxs = map snd (filter (\<lambda>(i, x). i \<notin> set idxs) (zip [0..<length xs] xs))"

text \<open>Modelled from the spec: \<open>removeByIds\<close> of helpers is not among the sources;
  the spec says that carving removes the carved indices from the target.\<close>

definition removeByIds :: "nat list \<Rightarrow> PointCloud \<Rightarrow> PointCloud" where
  "removeByIds idxs pc =
     \<lparr>points = drop_idx (points pc) idxs,
      normals = (if HasNormals pc then drop_idx (normals pc) idxs else []),
      colors = (if HasColors pc then drop_idx (colors pc) idxs else [])\<rparr>"

section \<open>Timers\<close>

text \<open>
  Modelled from the spec: the class \<open>Timer\<close> is not among the sources. The spec speaks of
  a per-target timer that has or has not elapsed its configured interval, and of an
  accumulator of carve execution times that is reported and reset. A timer is the clock
  reading of its last reset, the reading of its last stopwatch start, and the accumulated
  measurements. Every operation that reads the wall clock takes the reading, in seconds,
  as an argument.
\<close>

record Timer =
  startTime :: real
  startTimeStopWatch :: real
  cumulativeMeasurementMsec :: real
  numMeasurementsMsec :: nat

definition Timer_new :: "real \<Rightarrow> Timer" where
  "Timer_new now = \<lparr>startTime = now, startTimeStopWatch = now,
                    cumulativeMeasurementMsec = 0, numMeasurementsMsec = 0\<rparr>"

definition elapsedSec :: "real \<Rightarrow> Timer \<Rightarrow> real" where
  "elapsedSec now t = now - startTime t"

definition Timer_reset :: "real \<Rightarrow> Timer \<Rightarrow> Timer" where
  "Timer_reset now t = t\<lparr>startTime := now, cumulativeMeasurementMsec := 0, numMeasurementsMsec := 0\<rparr>"

definition startStopwatch :: "real \<Rightarrow> Timer \<Rightarrow> Timer" where
  "startStopwatch now t = t\<lparr>startTimeStopWatch := now\<rparr>"

definition elapsedMsecSinceStopwatchStart :: "real \<Rightarrow> Timer \<Rightarrow> real" where
  "elapsedMsecSinceStopwatchStart now t = 1000 * (now - startTimeStopWatch t)"

definition addMeasurementMsec :: "real \<Rightarrow> Timer \<Rightarrow> Timer" where
  "addMeasurementMsec m t =
     t\<lparr>cumulativeMeasurementMsec := cumulativeMeasurementMsec t + m,
       numMeasurementsMsec := Suc (numMeasurementsMsec t)\<rparr>"

section \<open>Parameters\<close>

text \<open>
  The parameter structs are declared in a header that is not among the sources; the
  records hold the fields that \<open>Submap.cpp\<close> reads, under the names it reads them by,
  and for carving the fields that the spec lists.
\<close>

datatype IcpObjective = PointToPoint | PointToPlane

record SpaceCarvingParameters =
  maxRangeToDrop :: real
  voxelSizeRay :: real
  stepSize :: real
  minDotThresholdForDropping :: real
  carveSpaceEveryNsec :: real

record CropperParameters =
  cropperName :: string
  croppingRadius :: real
  croppingMinZ :: real
  croppingMaxZ :: real

record MapBuilderParameters =
  mapVoxelSize :: real
  carving :: SpaceCarvingParameters
  cropper :: CropperParameters

record ScanMatcherParameters =
  kNNnormalEstimation :: int
  icpObjective :: IcpObjective

record PlaceRecognitionParameters =
  featureVoxelSize :: real
  normalEstimationRadius :: real
  normalKnn :: int
  featureRadius :: real
  featureKnn :: int

record SubmapParameters =
  minSecondsBetweenFeatureComputation :: real

record MapperParameters =
  scanMatcher :: ScanMatcherParameters
  mapBuilder :: MapBuilderParameters
  denseMapBuilder :: MapBuilderParameters
  placeRecognition :: PlaceRecognitionParameters
  submaps :: SubmapParameters

section \<open>Cropping volumes\<close>

text \<open>A cropping volume is its configuration and its pose; the predicate it stands for
  is behind \<open>crop\<close> and \<open>getIndicesWithinVolume\<close> of \<open>Helpers\<close>.\<close>

record CroppingVolume =
  cropperConfig :: CropperParameters
  pose :: Transform

definition setPose :: "Transform \<Rightarrow> CroppingVolume \<Rightarrow> CroppingVolume" where
  "setPose T c = c\<lparr>pose := T\<rparr>"

section \<open>The dense voxel cloud\<close>

text \<open>
  Modelled from the spec: \<open>VoxelizedPointCloud\<close> is not among the sources. The spec
  describes a mapping from integer voxel keys to aggregated attributes; a key is the
  component-wise floor of a point divided by the voxel size; \<open>insert\<close> iterates the
  points, floors to the key and merges into the bucket with an incremented count, the
  aggregation being a running mean of position, normal and colour; a cloud built from a
  voxel size has no voxels. The mapping is an association list with one entry per key.
\<close>

record AggregatedVoxel =
  numAggregatedPoints :: nat
  aggregatedPosition :: Vector3d
  aggregatedNormal :: Vector3d
  aggregatedColor :: Vector3d

record VoxelizedPointCloud =
  voxelSize3 :: Vector3d
  voxels :: "(Vector3i \<times> AggregatedVoxel) list"

definition VoxelizedPointCloud_new :: "Vector3d \<Rightarrow> VoxelizedPointCloud" where
  "VoxelizedPointCloud_new sz = \<lparr>voxelSize3 = sz, voxels = []\<rparr>"

definition VoxelizedPointCloud_empty :: "VoxelizedPointCloud \<Rightarrow> bool" where
  "VoxelizedPointCloud_empty c = (voxels c = [])"

fun getKey :: "Vector3d \<Rightarrow> Vector3d \<Rightarrow> Vector3i" where
  "getKey (sx, sy, sz) (x, y, z) = (\<lfloor>x / sx\<rfloor>, \<lfloor>y / sy\<rfloor>, \<lfloor>z / sz\<rfloor>)"

definition running_mean :: "nat \<Rightarrow> Vector3d \<Rightarrow> Vector3d \<Rightarrow> Vector3d" where
  "running_mean n m x = vadd m (vscale (1 / real (Suc n)) (vadd x (vscale (- 1) m)))"

definition aggregatePoint ::
  "Vector3d \<Rightarrow> Vector3d option \<Rightarrow> Vector3d option \<Rightarrow> AggregatedVoxel \<Rightarrow> AggregatedVoxel" where
  "aggregatePoint p n c v =
     \<lparr>numAggregatedPoints = Suc (numAggregatedPoints v),
      aggregatedPosition = running_mean (numAggregatedPoints v) (aggregatedPosition v) p,
      aggregatedNormal = (case n of None \<Rightarrow> aggregatedNormal v
                          | Some x \<Rightarrow> running_mean (numAggregatedPoints v) (aggregatedNormal v) x),
      aggregatedColor = (case c of None \<Rightarrow> aggregatedColor v
                         | Some x \<Rightarrow> running_mean (numAggregatedPoints v) (aggregatedColor v) x)\<rparr>"

definition emptyVoxel :: AggregatedVoxel where
  "emptyVoxel = \<lparr>numAggregatedPoints = 0, aggregatedPosition = Vector3d_Zero,
                 aggregatedNormal = Vector3d_Zero, aggregatedColor = Vector3d_Zero\<rparr>"

fun mergeIntoBucket ::
  "Vector3i \<Rightarrow> (AggregatedVoxel \<Rightarrow> AggregatedVoxel) \<Rightarrow> (Vector3i \<times> AggregatedVoxel) list
     \<Rightarrow> (Vector3i \<times> AggregatedVoxel) list" where
  "mergeIntoBucket k f [] = [(k, f emptyVoxel)]"
| "mergeIntoBucket k f ((k', v) # kvs) =
     (if k = k' then (k', f v) # kvs else (k', v) # mergeIntoBucket k f kvs)"

definition insertPointAt :: "PointCloud \<Rightarrow> VoxelizedPointCloud \<Rightarrow> nat \<Rightarrow> VoxelizedPointCloud" where
  "insertPointAt pc c i =
     c\<lparr>voxels := mergeIntoBucket (getKey (voxelSize3 c) (points pc ! i))
         (aggregatePoint (points pc ! i)
            (if HasNormals pc then Some (normals pc ! i) else None)
            (if HasColors pc then Some (colors pc ! i) else None))
         (voxels c)\<rparr>"

definition VoxelizedPointCloud_insert :: "PointCloud \<Rightarrow> VoxelizedPointCloud \<Rightarrow> VoxelizedPointCloud" where
  "VoxelizedPointCloud_insert pc c = foldl (insertPointAt pc) c [0..<length (points pc)]"

definition removeKey :: "Vector3i \<Rightarrow> VoxelizedPointCloud \<Rightarrow> VoxelizedPointCloud" where
  "removeKey k c = c\<lparr>voxels := filter (\<lambda>kv. fst kv \<noteq> k) (voxels c)\<rparr>"

section \<open>The sparse voxel index\<close>

text \<open>
  Modelled from the spec: \<open>VoxelMap\<close> is not among the sources. The spec describes a
  mapping from voxel keys to the indices of the points of a cloud that lie in the voxel,
  kept per named layer, built from a voxel size, cleared and rebuilt as a whole.
\<close>

record VoxelMap =
  voxelMapSize :: Vector3d
  layers :: "(string \<times> (Vector3i \<times> nat list) list) list"

definition VoxelMap_new :: "Vector3d \<Rightarrow> VoxelMap" where
  "VoxelMap_new sz = \<lparr>voxelMapSize = sz, layers = []\<rparr>"

definition VoxelMap_clear :: "VoxelMap \<Rightarrow> VoxelMap" where
  "VoxelMap_clear m = m\<lparr>layers := []\<rparr>"

fun addIndex :: "Vector3i \<Rightarrow> nat \<Rightarrow> (Vector3i \<times> nat list) list \<Rightarrow> (Vector3i \<times> nat list) list" where
  "addIndex k i [] = [(k, [i])]"
| "addIndex k i ((k', is) # kvs) =
     (if k = k' then (k', is @ [i]) # kvs else (k', is) # addIndex k i kvs)"

fun updateLayer ::
  "string \<Rightarrow> ((Vector3i \<times> nat list) list \<Rightarrow> (Vector3i \<times> nat list) list)
     \<Rightarrow> (string \<times> (Vector3i \<times> nat list) list) list \<Rightarrow> (string \<times> (Vector3i \<times> nat list) list) list" where
  "updateLayer l f [] = [(l, f [])]"
| "updateLayer l f ((l', m) # ls) =
     (if l = l' then (l', f m) # ls else (l', m) # updateLayer l f ls)"

definition insertCloud :: "string \<Rightarrow> PointCloud \<Rightarrow> VoxelMap \<Rightarrow> VoxelMap" where
  "insertCloud l pc m =
     m\<lparr>layers := updateLayer l
         (\<lambda>idx. foldl (\<lambda>acc i. addIndex (getKey (voxelMapSize m) (points pc ! i)) i acc) idx
                  [0..<length (points pc)])
         (layers m)\<rparr>"

definition voxelMapLayer :: string where
  "voxelMapLayer = ''layer''"

section \<open>Code outside the sources\<close>

text \<open>
  \<open>Submap.cpp\<close> calls numerical routines of Open3D and of \<open>helpers\<close>, the cropping
  volumes, the colour filters and the transform of the dense voxel cloud, none of which is
  among the sources, and reads one constant of \<open>magic.hpp\<close>. They are parameters of the
  model: every operation of the submap takes a record of them, and every theorem holds
  for all of them unless it says otherwise. A \<open>Feature\<close> is its matrix of descriptors.
\<close>

type_synonym Feature = "real list list"

record Helpers =
  croppingVolumeFactory :: "CropperParameters \<Rightarrow> CroppingVolume"
  crop :: "CroppingVolume \<Rightarrow> PointCloud \<Rightarrow> PointCloud"
  getIndicesWithinVolume :: "CroppingVolume \<Rightarrow> PointCloud \<Rightarrow> nat list"
  colorCropper_crop :: "PointCloud \<Rightarrow> PointCloud"
  filterColor :: "PointCloud \<Rightarrow> PointCloud"
  estimateNormals :: "int \<Rightarrow> PointCloud \<Rightarrow> PointCloud"
  NormalizeNormals :: "PointCloud \<Rightarrow> PointCloud"
  getIdxsOfCarvedPoints ::
    "PointCloud \<Rightarrow> PointCloud \<Rightarrow> Vector3d \<Rightarrow> nat list \<Rightarrow> SpaceCarvingParameters \<Rightarrow> nat list"
  getKeysOfCarvedPoints ::
    "PointCloud \<Rightarrow> VoxelizedPointCloud \<Rightarrow> Vector3d \<Rightarrow> SpaceCarvingParameters \<Rightarrow> Vector3i list"
  voxelizeWithinCroppingVolume :: "real \<Rightarrow> CroppingVolume \<Rightarrow> PointCloud \<Rightarrow> PointCloud"
  VoxelizedPointCloud_transform :: "Transform \<Rightarrow> VoxelizedPointCloud \<Rightarrow> VoxelizedPointCloud"
  VoxelDownSample :: "real \<Rightarrow> PointCloud \<Rightarrow> PointCloud"
  EstimateNormals :: "real \<Rightarrow> int \<Rightarrow> PointCloud \<Rightarrow> PointCloud"
  OrientNormalsTowardsCameraLocation :: "Vector3d \<Rightarrow> PointCloud \<Rightarrow> PointCloud"
  ComputeFPFHFeature :: "PointCloud \<Rightarrow> real \<Rightarrow> int \<Rightarrow> Feature"
  voxelExpansionFactorAdjacencyBasedRevisiting :: real

section \<open>The submap\<close>

text \<open>
  The sources hold two variants of \<open>Submap.cpp\<close>. The definitions without a suffix
  follow \<open>src/unnamed/part_000\<close>; the definitions with the suffix \<open>_001\<close> follow
  \<open>src/unnamed/part_001\<close> where it differs. One record serves both. Its fields are
  the data members under the names of part_000; part_001 calls \<open>mapCloud\<close>
  \<open>map_\<close>, \<open>sparseMapCloud\<close> \<open>sparseMap_\<close> and \<open>denseMap\<close> \<open>voxelizedCloud_\<close>, and
  only part_001 has \<open>isFirstDenseScan\<close>. The mutexes, the colour cropper and the colour
  projection hold no data that the code here changes and are left out. \<open>Time\<close> is a
  count of nanoseconds; \<open>feature\<close> is \<open>None\<close> for the null pointer.
\<close>

type_synonym Time = int

record Submap =
  id_f :: nat
  parentId :: nat
  params :: MapperParameters
  mapToSubmap :: Transform
  mapToRangeSensor :: Transform
  submapCenter :: Vector3d
  isCenterComputed :: bool
  creationTime :: Time
  mapCloud :: PointCloud
  sparseMapCloud :: PointCloud
  denseMap :: VoxelizedPointCloud
  voxelMap :: VoxelMap
  feature :: "Feature option"
  featureTimer :: Timer
  carvingTimer :: Timer
  carveDenseMapTimer :: Timer
  carvingStatisticsTimer :: Timer
  mapBuilderCropper :: CroppingVolume
  denseMapCropper :: CroppingVolume
  toRemove :: PointCloud
  scanRef :: PointCloud
  isFirstDenseScan :: bool

subsection \<open>Construction and parameters\<close>

definition update :: "Helpers \<Rightarrow> MapperParameters \<Rightarrow> Submap \<Rightarrow> Submap" where
  "update h p s =
     s\<lparr>mapBuilderCropper := croppingVolumeFactory h (cropper (mapBuilder p)),
       denseMapCropper := croppingVolumeFactory h (cropper (denseMapBuilder p)),
       denseMap := VoxelizedPointCloud_new (Vector3d_Constant (mapVoxelSize (denseMapBuilder p))),
       voxelMap := VoxelMap_new (Vector3d_Constant
                     (voxelExpansionFactorAdjacencyBasedRevisiting h * mapVoxelSize (mapBuilder p)))\<rparr>"

definition update_001 :: "Helpers \<Rightarrow> MapperParameters \<Rightarrow> Submap \<Rightarrow> Submap" where
  "update_001 h p s =
     s\<lparr>mapBuilderCropper := croppingVolumeFactory h
         \<lparr>cropperName = cropperName (cropper (mapBuilder p)),
          croppingRadius = croppingRadius (cropper (mapBuilder p)),
          croppingMinZ = croppingMinZ (cropper (mapBuilder p)),
          croppingMaxZ = croppingMaxZ (cropper (mapBuilder p))\<rparr>,
       denseMapCropper := croppingVolumeFactory h
         \<lparr>cropperName = cropperName (cropper (denseMapBuilder p)),
          croppingRadius = 1.2 * croppingRadius (cropper (denseMapBuilder p)),
          croppingMinZ = croppingMinZ (cropper (denseMapBuilder p)),
          croppingMaxZ = croppingMaxZ (cropper (denseMapBuilder p))\<rparr>,
       denseMap := VoxelizedPointCloud_new (Vector3d_Constant (mapVoxelSize (denseMapBuilder p)))\<rparr>"

definition setParameters :: "Helpers \<Rightarrow> MapperParameters \<Rightarrow> Submap \<Rightarrow> Submap" where
  "setParameters h mapperParams s = update h mapperParams (s\<lparr>params := mapperParams\<rparr>)"

definition setParameters_001 :: "Helpers \<Rightarrow> MapperParameters \<Rightarrow> Submap \<Rightarrow> Submap" where
  "setParameters_001 h mapperParams s = update_001 h mapperParams (s\<lparr>params := mapperParams\<rparr>)"

text \<open>
  The in-class initialisers of the data members are in \<open>Submap.hpp\<close>, which is not among
  the sources: the constructor takes them as a record. What C++ itself fixes is written
  out: a default-constructed point cloud has no points, a default-constructed shared
  pointer is null, and a \<open>Timer\<close> starts at the clock reading \<open>now\<close> of its construction.
  A default-constructed voxel container holds nothing; its voxel size is the one of the
  record. The two cropper pointers are assigned by \<open>update\<close> before the constructor
  returns; the record starts them at the value that \<open>update\<close> assigns.
\<close>

record MemberInitialisers =
  init_params :: MapperParameters
  init_mapToSubmap :: Transform
  init_mapToRangeSensor :: Transform
  init_submapCenter :: Vector3d
  init_isCenterComputed :: bool
  init_creationTime :: Time
  init_isFirstDenseScan :: bool
  init_voxelSize :: Vector3d

definition defaultMembers :: "Helpers \<Rightarrow> MemberInitialisers \<Rightarrow> real \<Rightarrow> nat \<Rightarrow> nat \<Rightarrow> Submap" where
  "defaultMembers h d now i p =
     \<lparr>id_f = i, parentId = p, params = init_params d,
      mapToSubmap = init_mapToSubmap d, mapToRangeSensor = init_mapToRangeSensor d,
      submapCenter = init_submapCenter d, isCenterComputed = init_isCenterComputed d,
      creationTime = init_creationTime d,
      mapCloud = PointCloud_empty, sparseMapCloud = PointCloud_empty,
      denseMap = VoxelizedPointCloud_new (init_voxelSize d),
      voxelMap = VoxelMap_new (init_voxelSize d),
      feature = None,
      featureTimer = Timer_new now, carvingTimer = Timer_new now,
      carveDenseMapTimer = Timer_new now, carvingStatisticsTimer = Timer_new now,
      mapBuilderCropper = croppingVolumeFactory h (cropper (mapBuilder (init_params d))),
      denseMapCropper = croppingVolumeFactory h (cropper (denseMapBuilder (init_params d))),
      toRemove = PointCloud_empty, scanRef = PointCloud_empty,
      isFirstDenseScan = init_isFirstDenseScan d\<rparr>"

definition Submap_new :: "Helpers \<Rightarrow> MemberInitialisers \<Rightarrow> real \<Rightarrow> nat \<Rightarrow> nat \<Rightarrow> Submap" where
  "Submap_new h d now i p = update h (init_params d) (defaultMembers h d now i p)"

definition Submap_new_001 :: "Helpers \<Rightarrow> MemberInitialisers \<Rightarrow> real \<Rightarrow> nat \<Rightarrow> nat \<Rightarrow> Submap" where
  "Submap_new_001 h d now i p = update_001 h (init_params d) (defaultMembers h d now i p)"

text \<open>The copy constructor (part_000 only): it delegates to the constructor above, then
  copies three members and runs \<open>update\<close> again.\<close>

definition Submap_copy :: "Helpers \<Rightarrow> MemberInitialisers \<Rightarrow> real \<Rightarrow> Submap \<Rightarrow> Submap" where
  "Submap_copy h d now other =
     (let s = (Submap_new h d now (id_f other) (parentId other))
                \<lparr>params := params other,
                 mapToSubmap := mapToSubmap other,
                 mapToRangeSensor := mapToRangeSensor other\<rparr>
      in update h (params s) s)"

subsection \<open>Getters\<close>

definition getId :: "Submap \<Rightarrow> nat" where
  "getId s = id_f s"

definition getParentId :: "Submap \<Rightarrow> nat" where
  "getParentId s = parentId s"

definition getMapToSubmapOrigin :: "Submap \<Rightarrow> Transform" where
  "getMapToSubmapOrigin s = mapToSubmap s"

definition getMapToSubmapCenter :: "Submap \<Rightarrow> Vector3d" where
  "getMapToSubmapCenter s =
     (if isCenterComputed s then submapCenter s else translation (mapToSubmap s))"

definition getMapPointCloud :: "Submap \<Rightarrow> PointCloud" where
  "getMapPointCloud s = mapCloud s"

definition getMapPointCloudCopy :: "Submap \<Rightarrow> PointCloud" where
  "getMapPointCloudCopy s = mapCloud s"

definition getDenseMap :: "Submap \<Rightarrow> VoxelizedPointCloud" where
  "getDenseMap s = denseMap s"

definition getSparseMapPointCloud :: "Submap \<Rightarrow> PointCloud" where
  "getSparseMapPointCloud s = sparseMapCloud s"

definition getVoxelMap :: "Submap \<Rightarrow> VoxelMap" where
  "getVoxelMap s = voxelMap s"

definition isEmpty :: "Submap \<Rightarrow> bool" where
  "isEmpty s = (points (mapCloud s) = [])"

text \<open>\<open>getFeatures\<close> asserts that the pointer is not null; the failed assertion is
  \<open>None\<close>.\<close>

definition getFeatures :: "Submap \<Rightarrow> Feature option" where
  "getFeatures s = feature s"

definition setMapToSubmapOrigin :: "Transform \<Rightarrow> Submap \<Rightarrow> Submap" where
  "setMapToSubmapOrigin T s = s\<lparr>mapToSubmap := T\<rparr>"

subsection \<open>Space carving\<close>

text \<open>
  \<open>carve\<close> on a point cloud works through the pointers \<open>map\<close> and \<open>timer\<close> and, being a
  member function, writes the members \<open>toRemove\<close> and \<open>scanRef\<close>: the model takes the
  pointees and the submap and returns all three. \<open>tCheck\<close> is the clock reading of
  \<open>timer->elapsedSec()\<close>, \<open>tReset\<close> the one of \<open>timer->reset()\<close>.
\<close>

definition carve_PointCloud ::
  "Helpers \<Rightarrow> real \<Rightarrow> real \<Rightarrow> PointCloud \<Rightarrow> Transform \<Rightarrow> CroppingVolume \<Rightarrow> SpaceCarvingParameters
     \<Rightarrow> PointCloud \<Rightarrow> Timer \<Rightarrow> Submap \<Rightarrow> PointCloud \<times> Timer \<times> Submap" where
  "carve_PointCloud h tCheck tReset rawScan T cropVol carvingParams cloud timer s =
     (if points cloud = [] \<or> elapsedSec tCheck timer < carveSpaceEveryNsec carvingParams
      then (cloud, timer, s)
      else
        let scan = transform_cloud T rawScan;
            wideCroppedIdxs = getIndicesWithinVolume h cropVol cloud;
            idxsToRemove = getIdxsOfCarvedPoints h scan cloud (translation T) wideCroppedIdxs carvingParams
        in (removeByIds idxsToRemove cloud,
            Timer_reset tReset timer,
            s\<lparr>toRemove := SelectByIndex cloud idxsToRemove, scanRef := scan\<rparr>))"

definition carve_VoxelizedPointCloud ::
  "Helpers \<Rightarrow> real \<Rightarrow> real \<Rightarrow> PointCloud \<Rightarrow> Vector3d \<Rightarrow> SpaceCarvingParameters
     \<Rightarrow> VoxelizedPointCloud \<Rightarrow> Timer \<Rightarrow> VoxelizedPointCloud \<times> Timer" where
  "carve_VoxelizedPointCloud h tCheck tReset scan sensorPosition param cloud timer =
     (if VoxelizedPointCloud_empty cloud \<or> elapsedSec tCheck timer < carveSpaceEveryNsec param
      then (cloud, timer)
      else
        let keysToRemove = getKeysOfCarvedPoints h scan cloud sensorPosition param
        in (foldl (\<lambda>c k. removeKey k c) cloud keysToRemove, Timer_reset tReset timer))"

subsection \<open>Inserting scans\<close>

definition estimateNormalsIfNeeded :: "Helpers \<Rightarrow> Submap \<Rightarrow> int \<Rightarrow> PointCloud \<Rightarrow> PointCloud" where
  "estimateNormalsIfNeeded h s knn pcl =
     (if \<not> HasNormals pcl \<and> icpObjective (scanMatcher (params s)) = PointToPlane
      then NormalizeNormals h (estimateNormals h knn pcl)
      else pcl)"

definition voxelizeInsideCroppingVolume ::
  "Helpers \<Rightarrow> CroppingVolume \<Rightarrow> MapBuilderParameters \<Rightarrow> PointCloud \<Rightarrow> PointCloud" where
  "voxelizeInsideCroppingVolume h cropVol param cloud =
     (if mapVoxelSize param > 0 then voxelizeWithinCroppingVolume h (mapVoxelSize param) cropVol cloud
      else cloud)"

text \<open>
  The block of \<open>insertScan\<close> that runs when carving is asked for. \<open>clk k\<close> is the
  reading of the wall clock at the \<open>k\<close>-th place of the call that reads it: the
  stopwatch start, the two readings of \<open>carve\<close>, the stopwatch stop, and the test and
  the reset of the statistics timer. The line printed every 20 seconds is left out.
\<close>

definition carveAndMeasure ::
  "Helpers \<Rightarrow> (nat \<Rightarrow> real) \<Rightarrow> PointCloud \<Rightarrow> Transform \<Rightarrow> Submap \<Rightarrow> Submap" where
  "carveAndMeasure h clk rawScan T s =
     (let s1 = s\<lparr>carvingStatisticsTimer := startStopwatch (clk 0) (carvingStatisticsTimer s)\<rparr>;
          (map', timer', s2) = carve_PointCloud h (clk 1) (clk 2) rawScan T (mapBuilderCropper s1)
                                  (carving (mapBuilder (params s1))) (mapCloud s1) (carvingTimer s1) s1;
          s3 = s2\<lparr>mapCloud := map', carvingTimer := timer'\<rparr>;
          timeMeasurement = elapsedMsecSinceStopwatchStart (clk 3) (carvingStatisticsTimer s3);
          s4 = s3\<lparr>carvingStatisticsTimer := addMeasurementMsec timeMeasurement (carvingStatisticsTimer s3)\<rparr>
      in if elapsedSec (clk 4) (carvingStatisticsTimer s4) > 20
         then s4\<lparr>carvingStatisticsTimer := Timer_reset (clk 5) (carvingStatisticsTimer s4)\<rparr>
         else s4)"

text \<open>The statements of \<open>insertScan\<close> from the assignment of the creation time on. They
  are the whole function in part_001; part_000 runs them after its test for an empty
  scan.\<close>

definition insertScan_body ::
  "Helpers \<Rightarrow> (nat \<Rightarrow> real) \<Rightarrow> PointCloud \<Rightarrow> PointCloud \<Rightarrow> Transform \<Rightarrow> Time \<Rightarrow> bool \<Rightarrow> Submap
     \<Rightarrow> bool \<times> Submap" where
  "insertScan_body h clk rawScan preProcessedScan T time isPerformCarving s =
     (let s1 = (if points (mapCloud s) = [] then s\<lparr>creationTime := time\<rparr> else s);
          s2 = s1\<lparr>mapToRangeSensor := T\<rparr>;
          transformedCloud = estimateNormalsIfNeeded h s2 (kNNnormalEstimation (scanMatcher (params s2)))
                               (transform_cloud T preProcessedScan);
          s3 = (if isPerformCarving then carveAndMeasure h clk rawScan T s2 else s2);
          s4 = s3\<lparr>mapCloud := PointCloud_add (mapCloud s3) transformedCloud\<rparr>;
          s5 = s4\<lparr>mapBuilderCropper := setPose T (mapBuilderCropper s4)\<rparr>;
          s6 = s5\<lparr>mapCloud := voxelizeInsideCroppingVolume h (mapBuilderCropper s5)
                                   (mapBuilder (params s5)) (mapCloud s5)\<rparr>
      in (True, s6))"

definition insertScan ::
  "Helpers \<Rightarrow> (nat \<Rightarrow> real) \<Rightarrow> PointCloud \<Rightarrow> PointCloud \<Rightarrow> Transform \<Rightarrow> Time \<Rightarrow> bool \<Rightarrow> Submap
     \<Rightarrow> bool \<times> Submap" where
  "insertScan h clk rawScan preProcessedScan T time isPerformCarving s =
     (if IsEmpty preProcessedScan then (True, s)
      else insertScan_body h clk rawScan preProcessedScan T time isPerformCarving s)"

definition insertScan_001 ::
  "Helpers \<Rightarrow> (nat \<Rightarrow> real) \<Rightarrow> PointCloud \<Rightarrow> PointCloud \<Rightarrow> Transform \<Rightarrow> Time \<Rightarrow> bool \<Rightarrow> Submap
     \<Rightarrow> bool \<times> Submap" where
  "insertScan_001 h clk rawScan preProcessedScan T time isPerformCarving s =
     insertScan_body h clk rawScan preProcessedScan T time isPerformCarving s"

definition carveDenseMap ::
  "Helpers \<Rightarrow> real \<Rightarrow> real \<Rightarrow> PointCloud \<Rightarrow> Transform \<Rightarrow> Submap \<Rightarrow> Submap" where
  "carveDenseMap h tCheck tReset rawScan T s =
     (let (cloud', timer') = carve_VoxelizedPointCloud h tCheck tReset rawScan (translation T)
                               (carving (denseMapBuilder (params s))) (denseMap s) (carveDenseMapTimer s)
      in s\<lparr>denseMap := cloud', carveDenseMapTimer := timer'\<rparr>)"

definition insertScanDenseMap ::
  "Helpers \<Rightarrow> real \<Rightarrow> real \<Rightarrow> PointCloud \<Rightarrow> Transform \<Rightarrow> Time \<Rightarrow> bool \<Rightarrow> Submap \<Rightarrow> bool \<times> Submap" where
  "insertScanDenseMap h tCheck tReset rawScan T time isPerformCarving s =
     (let s1 = s\<lparr>denseMapCropper := setPose Transform_Identity (denseMapCropper s)\<rparr>;
          cropped = crop h (denseMapCropper s1) rawScan;
          validColors = colorCropper_crop h cropped;
          transformedCloud = transform_cloud T validColors;
          s2 = s1\<lparr>denseMap := VoxelizedPointCloud_insert transformedCloud (denseMap s1)\<rparr>;
          s3 = (if isPerformCarving then carveDenseMap h tCheck tReset rawScan T s2 else s2)
      in (True, s3))"

definition insertScanDenseMap_001 ::
  "Helpers \<Rightarrow> real \<Rightarrow> real \<Rightarrow> PointCloud \<Rightarrow> Transform \<Rightarrow> Time \<Rightarrow> bool \<Rightarrow> Submap \<Rightarrow> bool \<times> Submap" where
  "insertScanDenseMap_001 h tCheck tReset rawScan T time isPerformCarving s =
     (if isFirstDenseScan s then (False, s\<lparr>isFirstDenseScan := False\<rparr>)
      else
        let colored = filterColor h rawScan;
            s1 = s\<lparr>denseMapCropper := setPose Transform_Identity (denseMapCropper s)\<rparr>;
            cropped = crop h (denseMapCropper s1) colored;
            transformedCloud = transform_cloud T cropped;
            s2 = s1\<lparr>denseMap := VoxelizedPointCloud_insert transformedCloud (denseMap s1)\<rparr>;
            s3 = (if isPerformCarving then carveDenseMap h tCheck tReset rawScan T s2 else s2)
        in (True, s3))"

subsection \<open>Transform, features, centre\<close>

definition transform :: "Helpers \<Rightarrow> Transform \<Rightarrow> Submap \<Rightarrow> Submap" where
  "transform h T s =
     s\<lparr>sparseMapCloud := PointCloud_Transform T (sparseMapCloud s),
       mapCloud := PointCloud_Transform T (mapCloud s),
       denseMap := VoxelizedPointCloud_transform h T (denseMap s),
       mapToRangeSensor := Transform_mul (mapToRangeSensor s) T,
       submapCenter := Transform_apply T (submapCenter s)\<rparr>"

text \<open>
  \<open>computeFeatures\<close>: the thread that rebuilds the voxel map is joined before the
  function returns and touches only \<open>voxelMap\<close>, so the model runs it first.
  \<open>ComputeFPFHFeature\<close> of Open3D returns a freshly made object, never null. \<open>tCheck\<close> is
  the reading of \<open>featureTimer.elapsedSec()\<close>, \<open>tReset\<close> the one of the final reset.
\<close>

definition featureCloud :: "Helpers \<Rightarrow> PlaceRecognitionParameters \<Rightarrow> PointCloud \<Rightarrow> PointCloud" where
  "featureCloud h p mapCopy =
     OrientNormalsTowardsCameraLocation h Vector3d_Zero
       (NormalizeNormals h
          (EstimateNormals h (normalEstimationRadius p) (normalKnn p)
             (VoxelDownSample h (featureVoxelSize p) mapCopy)))"

definition computeFeatures :: "Helpers \<Rightarrow> real \<Rightarrow> real \<Rightarrow> Submap \<Rightarrow> Submap" where
  "computeFeatures h tCheck tReset s =
     (if feature s \<noteq> None
         \<and> elapsedSec tCheck (featureTimer s) < minSecondsBetweenFeatureComputation (submaps (params s))
      then s
      else
        let s1 = s\<lparr>voxelMap := insertCloud voxelMapLayer (mapCloud s) (VoxelMap_clear (voxelMap s))\<rparr>;
            mapCopy = getMapPointCloudCopy s1;
            p = placeRecognition (params s1);
            s2 = s1\<lparr>sparseMapCloud := featureCloud h p mapCopy\<rparr>;
            s3 = s2\<lparr>feature := Some (ComputeFPFHFeature h (sparseMapCloud s2) (featureRadius p) (featureKnn p))\<rparr>
        in s3\<lparr>featureTimer := Timer_reset tReset (featureTimer s3)\<rparr>)"

text \<open>Modelled from the spec: part_001 rebuilds the index with \<open>buildFromCloud\<close>, which
  is not among the sources; it indexes every point of the cloud by its voxel key, here
  under the one layer.\<close>

definition buildFromCloud :: "PointCloud \<Rightarrow> VoxelMap \<Rightarrow> VoxelMap" where
  "buildFromCloud pc m = insertCloud voxelMapLayer pc m"

definition computeFeatures_001 :: "Helpers \<Rightarrow> real \<Rightarrow> real \<Rightarrow> Submap \<Rightarrow> Submap" where
  "computeFeatures_001 h tCheck tReset s =
     (if feature s \<noteq> None
         \<and> elapsedSec tCheck (featureTimer s) < minSecondsBetweenFeatureComputation (submaps (params s))
      then s
      else
        let s1 = s\<lparr>voxelMap := buildFromCloud (mapCloud s) (VoxelMap_clear (voxelMap s))\<rparr>;
            p = placeRecognition (params s1);
            s2 = s1\<lparr>sparseMapCloud := featureCloud h p (mapCloud s1)\<rparr>;
            s3 = s2\<lparr>feature := Some (ComputeFPFHFeature h (sparseMapCloud s2) (featureRadius p) (featureKnn p))\<rparr>
        in s3\<lparr>featureTimer := Timer_reset tReset (featureTimer s3)\<rparr>)"

definition computeSubmapCenter :: "Submap \<Rightarrow> Submap" where
  "computeSubmapCenter s =
     (let mapCopy = getMapPointCloudCopy s
      in s\<lparr>submapCenter := GetCenter mapCopy, isCenterComputed := True\<rparr>)"

subsection \<open>Sequences of insertScan calls\<close>

text \<open>The arguments of one call of \<open>insertScan\<close>, with the clock readings of the call,
  and the submap after a list of calls made one after the other.\<close>

record ScanCall =
  call_clk :: "nat \<Rightarrow> real"
  call_rawScan :: PointCloud
  call_preProcessedScan :: PointCloud
  call_mapToRangeSensor :: Transform
  call_time :: Time
  call_isPerformCarving :: bool

fun insertScans :: "Helpers \<Rightarrow> ScanCall list \<Rightarrow> Submap \<Rightarrow> Submap" where
  "insertScans h [] s = s"
| "insertScans h (c # cs) s =
     insertScans h cs
       (snd (insertScan h (call_clk c) (call_rawScan c) (call_preProcessedScan c)
               (call_mapToRangeSensor c) (call_time c) (call_isPerformCarving c) s))"

fun insertScans_001 :: "Helpers \<Rightarrow> ScanCall list \<Rightarrow> Submap \<Rightarrow> Submap" where
  "insertScans_001 h [] s = s"
| "insertScans_001 h (c # cs) s =
     insertScans_001 h cs
       (snd (insertScan_001 h (call_clk c) (call_rawScan c) (call_preProcessedScan c)
               (call_mapToRangeSensor c) (call_time c) (call_isPerformCarving c) s))"

section \<open>A concrete instance\<close>

text \<open>
  To run the operations on concrete inputs, the parameters need values. In
  \<open>exampleHelpers\<close> a cropping volume starts at the identity pose and holds every point,
  no colour is filtered out, normals are left as they are, voxelising and down-sampling
  keep the cloud, carving takes the first candidate, the dense cloud is moved voxel by
  voxel, and a descriptor is 33 zeros per point. \<open>exampleInit\<close> initialises the poses
  to the identity, the centre to zero, and the flag \<open>isFirstDenseScan\<close> to true, which
  is the only initial value under which the test of part_001 on it is not dead code.
\<close>

definition exampleParams :: MapperParameters where
  "exampleParams =
     \<lparr>scanMatcher = \<lparr>kNNnormalEstimation = 10, icpObjective = PointToPoint\<rparr>,
      mapBuilder = \<lparr>mapVoxelSize = 1 / 2,
                    carving = \<lparr>maxRangeToDrop = 10, voxelSizeRay = 1 / 5, stepSize = 1 / 5,
                               minDotThresholdForDropping = 1 / 2, carveSpaceEveryNsec = 1\<rparr>,
                    cropper = \<lparr>cropperName = ''MaxRadius'', croppingRadius = 30,
                               croppingMinZ = - 10, croppingMaxZ = 10\<rparr>\<rparr>,
      denseMapBuilder = \<lparr>mapVoxelSize = 1,
                    carving = \<lparr>maxRangeToDrop = 10, voxelSizeRay = 1 / 5, stepSize = 1 / 5,
                               minDotThresholdForDropping = 1 / 2, carveSpaceEveryNsec = 1\<rparr>,
                    cropper = \<lparr>cropperName = ''MaxRadius'', croppingRadius = 30,
                               croppingMinZ = - 10, croppingMaxZ = 10\<rparr>\<rparr>,
      placeRecognition = \<lparr>featureVoxelSize = 1 / 2, normalEstimationRadius = 1, normalKnn = 10,
                          featureRadius = 2, featureKnn = 100\<rparr>,
      submaps = \<lparr>minSecondsBetweenFeatureComputation = 5\<rparr>\<rparr>"

definition exampleHelpers :: Helpers where
  "exampleHelpers =
     \<lparr>croppingVolumeFactory = (\<lambda>p. \<lparr>cropperConfig = p, pose = Transform_Identity\<rparr>),
      crop = (\<lambda>c pc. pc),
      getIndicesWithinVolume = (\<lambda>c pc. [0..<length (points pc)]),
      colorCropper_crop = (\<lambda>pc. pc),
      filterColor = (\<lambda>pc. pc),
      estimateNormals = (\<lambda>k pc. pc),
      NormalizeNormals = (\<lambda>pc. pc),
      getIdxsOfCarvedPoints = (\<lambda>scan m sensor wide p. take 1 wide),
      getKeysOfCarvedPoints = (\<lambda>scan c sensor p. map fst (take 1 (voxels c))),
      voxelizeWithinCroppingVolume = (\<lambda>v c pc. pc),
      VoxelizedPointCloud_transform = (\<lambda>T c.
         c\<lparr>voxels := map (\<lambda>(k, v). (getKey (voxelSize3 c) (Transform_apply T (aggregatedPosition v)),
                                       v\<lparr>aggregatedPosition := Transform_apply T (aggregatedPosition v)\<rparr>))
                          (voxels c)\<rparr>),
      VoxelDownSample = (\<lambda>v pc. pc),
      EstimateNormals = (\<lambda>r k pc. pc),
      OrientNormalsTowardsCameraLocation = (\<lambda>p pc. pc),
      ComputeFPFHFeature = (\<lambda>pc r k. map (\<lambda>p. replicate 33 0) (points pc)),
      voxelExpansionFactorAdjacencyBasedRevisiting = 2\<rparr>"

definition exampleInit :: MemberInitialisers where
  "exampleInit =
     \<lparr>init_params = exampleParams,
      init_mapToSubmap = Transform_Identity,
      init_mapToRangeSensor = Transform_Identity,
      init_submapCenter = Vector3d_Zero,
      init_isCenterComputed = False,
      init_creationTime = 0,
      init_isFirstDenseScan = True,
      init_voxelSize = (1, 1, 1)\<rparr>"

definition cloudOf :: "Vector3d list \<Rightarrow> PointCloud" where
  "cloudOf ps = \<lparr>points = ps, normals = [], colors = []\<rparr>"

text \<open>A clock that reads \<open>t\<close> at every place of a call, a scan of three points on the
  x-axis, and a fresh submap of either variant, created at clock reading 0.\<close>

definition clockAt :: "real \<Rightarrow> nat \<Rightarrow> real" where
  "clockAt t k = t"

definition scan3 :: PointCloud where
  "scan3 = cloudOf [(0, 0, 0), (1, 0, 0), (2, 0, 0)]"

definition fresh :: Submap where
  "fresh = Submap_new exampleHelpers exampleInit 0 0 0"

definition fresh_001 :: Submap where
  "fresh_001 = Submap_new_001 exampleHelpers exampleInit 0 0 0"

text \<open>One call: the scan \<open>pre\<close>, raw and preprocessed, taken at the identity pose at
  time \<open>t\<close>, without carving, every clock reading being \<open>c\<close>.\<close>

definition scanCall :: "real \<Rightarrow> PointCloud \<Rightarrow> Time \<Rightarrow> ScanCall" where
  "scanCall c pre t =
     \<lparr>call_clk = clockAt c, call_rawScan = pre, call_preProcessedScan = pre,
      call_mapToRangeSensor = Transform_Identity, call_time = t, call_isPerformCarving = False\<rparr>"


text \<open>A populated submap of either variant: one scan inserted into the map at time 100
  from a pose one unit along x, the same scan inserted into the dense map (twice in
  part_001, whose first call only clears the flag), and then the features computed
  between the clock readings 10 and 11.\<close>

definition scanned :: Submap where
  "scanned =
     snd (insertScanDenseMap exampleHelpers 2 2 scan3 Transform_Identity 100 False
        (snd (insertScan exampleHelpers (clockAt 1) scan3 scan3 (translate (1, 0, 0)) 100 False fresh)))"

definition populated :: Submap where
  "populated = computeFeatures exampleHelpers 10 11 scanned"

definition scanned_001 :: Submap where
  "scanned_001 =
     snd (insertScanDenseMap_001 exampleHelpers 3 3 scan3 Transform_Identity 100 False
        (snd (insertScanDenseMap_001 exampleHelpers 2 2 scan3 Transform_Identity 100 False
           (snd (insertScan_001 exampleHelpers (clockAt 1) scan3 scan3 (translate (1, 0, 0)) 100 False
              fresh_001)))))"

definition populated_001 :: Submap where
  "populated_001 = computeFeatures_001 exampleHelpers 10 11 scanned_001"

section \<open>Unfolding the concrete instance\<close>

lemmas example_defs = exampleHelpers_def exampleInit_def exampleParams_def Submap_new_001_def
  Submap_new_def defaultMembers_def update_def update_001_def PointCloud_empty_def Timer_new_def
  VoxelizedPointCloud_new_def VoxelMap_new_def Vector3d_Zero_def Vector3d_Constant_def
  Transform_Identity_def Matrix3d_Identity_def translate_def fresh_def fresh_001_def clockAt_def
  scan3_def cloudOf_def scanCall_def

lemmas insertScan_defs = insertScan_001_def insertScan_def insertScan_body_def
  estimateNormalsIfNeeded_def transform_cloud_def PointCloud_Transform_def PointCloud_add_def
  IsEmpty_def setPose_def voxelizeInsideCroppingVolume_def HasNormals_def HasColors_def
  Transform_apply_def

lemmas dense_defs = insertScanDenseMap_def insertScanDenseMap_001_def VoxelizedPointCloud_insert_def
  insertPointAt_def aggregatePoint_def running_mean_def emptyVoxel_def

lemmas feature_defs = computeFeatures_def computeFeatures_001_def buildFromCloud_def insertCloud_def
  VoxelMap_clear_def voxelMapLayer_def featureCloud_def getMapPointCloudCopy_def Timer_reset_def
  elapsedSec_def

lemmas populated_defs = populated_def populated_001_def scanned_def scanned_001_def

lemmas carve_defs = carve_PointCloud_def carve_VoxelizedPointCloud_def removeByIds_def drop_idx_def
  SelectByIndex_def select_idx_def VoxelizedPointCloud_empty_def removeKey_def

lemma upt_0_3: "[0..<3] = [0, 1, 2]"
  by (simp add: upt_rec)

section \<open>Empty scans\<close>

text \<open>In part_000 an empty preprocessed scan is answered before anything is written.\<close>

lemma insertScan_empty_scan_noop:
  "IsEmpty preProcessedScan \<Longrightarrow>
     insertScan h clk rawScan preProcessedScan T time isPerformCarving s = (True, s)"
  by (simp add: insertScan_def)

text \<open>
  C1. The claim: whenever the preprocessed scan is empty, \<open>insertScan\<close> returns true and
  leaves the whole submap as it was. That is \<open>insertScan_empty_scan_noop\<close> for part_000.
  The \<open>insertScan\<close> of part_001 has no such test. Run on a fresh submap with an empty
  raw and an empty preprocessed scan, the pose one unit along x and the time 100, it
  returns true, and the creation time, 0 before, is 100 and the sensor pose, the identity
  before, is the pose of the call.
\<close>

theorem insertScan_001_empty_scan_writes:
  "fst (insertScan_001 exampleHelpers (clockAt 1) PointCloud_empty PointCloud_empty
          (translate (1, 0, 0)) 100 False fresh_001)
   \<and> creationTime fresh_001 = 0
   \<and> creationTime (snd (insertScan_001 exampleHelpers (clockAt 1) PointCloud_empty PointCloud_empty
          (translate (1, 0, 0)) 100 False fresh_001)) = 100
   \<and> mapToRangeSensor fresh_001 = Transform_Identity
   \<and> mapToRangeSensor (snd (insertScan_001 exampleHelpers (clockAt 1) PointCloud_empty
          PointCloud_empty (translate (1, 0, 0)) 100 False fresh_001)) = translate (1, 0, 0)"
  by (simp add: Let_def insertScan_defs example_defs)

section \<open>The creation time\<close>

lemma insertScan_creationTime_kept:
  "points (mapCloud s) \<noteq> [] \<Longrightarrow>
     creationTime (snd (insertScan h clk rawScan pre T time isPerformCarving s)) = creationTime s"
  by (simp add: insertScan_def insertScan_body_def Let_def carveAndMeasure_def carve_PointCloud_def
      split: prod.splits)

lemma insertScan_creationTime_set:
  "points (mapCloud s) = [] \<Longrightarrow> \<not> IsEmpty pre \<Longrightarrow>
     creationTime (snd (insertScan h clk rawScan pre T time isPerformCarving s)) = time"
  by (simp add: insertScan_def insertScan_body_def Let_def carveAndMeasure_def carve_PointCloud_def
      split: prod.splits)

lemma PointCloud_add_nonempty: "points b \<noteq> [] \<Longrightarrow> points (PointCloud_add a b) \<noteq> []"
  by (simp add: PointCloud_add_def IsEmpty_def)

text \<open>If the helpers that rewrite a cloud never turn a cloud with points into one without,
  the map has points after every call with a non-empty scan.\<close>

lemma insertScan_map_nonempty:
  assumes en: "\<And>k pc. points pc \<noteq> [] \<Longrightarrow> points (estimateNormals h k pc) \<noteq> []"
      and nn: "\<And>pc. points pc \<noteq> [] \<Longrightarrow> points (NormalizeNormals h pc) \<noteq> []"
      and vx: "\<And>v c pc. points pc \<noteq> [] \<Longrightarrow> points (voxelizeWithinCroppingVolume h v c pc) \<noteq> []"
      and pre: "\<not> IsEmpty pre"
  shows "points (mapCloud (snd (insertScan h clk rawScan pre T time isPerformCarving s))) \<noteq> []"
proof -
  have t: "points (transform_cloud T pre) \<noteq> []"
    using pre by (simp add: transform_cloud_def PointCloud_Transform_def IsEmpty_def)
  have e: "\<And>x k. points (estimateNormalsIfNeeded h x k (transform_cloud T pre)) \<noteq> []"
    using t en nn by (simp add: estimateNormalsIfNeeded_def)
  show ?thesis
    using pre e vx
    by (simp add: insertScan_def insertScan_body_def Let_def voxelizeInsideCroppingVolume_def
        PointCloud_add_nonempty)
qed

lemma insertScans_creationTime_kept:
  assumes en: "\<And>k pc. points pc \<noteq> [] \<Longrightarrow> points (estimateNormals h k pc) \<noteq> []"
      and nn: "\<And>pc. points pc \<noteq> [] \<Longrightarrow> points (NormalizeNormals h pc) \<noteq> []"
      and vx: "\<And>v c pc. points pc \<noteq> [] \<Longrightarrow> points (voxelizeWithinCroppingVolume h v c pc) \<noteq> []"
  shows "points (mapCloud s) \<noteq> [] \<Longrightarrow> creationTime (insertScans h cs s) = creationTime s"
proof (induction cs arbitrary: s)
  case Nil
  show ?case by simp
next
  case (Cons c cs)
  let ?s' = "snd (insertScan h (call_clk c) (call_rawScan c) (call_preProcessedScan c)
                    (call_mapToRangeSensor c) (call_time c) (call_isPerformCarving c) s)"
  have kept: "creationTime ?s' = creationTime s"
    using Cons.prems by (rule insertScan_creationTime_kept)
  have "points (mapCloud ?s') \<noteq> []"
  proof (cases "IsEmpty (call_preProcessedScan c)")
    case True
    then show ?thesis using Cons.prems by (simp add: insertScan_empty_scan_noop)
  next
    case False
    then show ?thesis using en nn vx by (rule insertScan_map_nonempty[rotated 3])
  qed
  then have "creationTime (insertScans h cs ?s') = creationTime ?s'"
    by (rule Cons.IH)
  then show ?case using kept by simp
qed

text \<open>
  Part_000 on a submap whose map has no points yet, as a fresh one: after any list of
  calls the creation time is the time of the first call with a non-empty preprocessed
  scan, and the initial value if there is none. As this holds after every prefix of the
  list, the creation time changes at that call and at no other.
\<close>

lemma insertScans_creationTime:
  assumes en: "\<And>k pc. points pc \<noteq> [] \<Longrightarrow> points (estimateNormals h k pc) \<noteq> []"
      and nn: "\<And>pc. points pc \<noteq> [] \<Longrightarrow> points (NormalizeNormals h pc) \<noteq> []"
      and vx: "\<And>v c pc. points pc \<noteq> [] \<Longrightarrow> points (voxelizeWithinCroppingVolume h v c pc) \<noteq> []"
  shows "points (mapCloud s) = [] \<Longrightarrow>
         creationTime (insertScans h cs s) =
           (case find (\<lambda>c. \<not> IsEmpty (call_preProcessedScan c)) cs of
              None \<Rightarrow> creationTime s | Some c \<Rightarrow> call_time c)"
proof (induction cs arbitrary: s)
  case Nil
  show ?case by simp
next
  case (Cons c cs)
  let ?s' = "snd (insertScan h (call_clk c) (call_rawScan c) (call_preProcessedScan c)
                    (call_mapToRangeSensor c) (call_time c) (call_isPerformCarving c) s)"
  show ?case
  proof (cases "IsEmpty (call_preProcessedScan c)")
    case True
    then have "?s' = s" by (simp add: insertScan_empty_scan_noop)
    then show ?thesis using True Cons.IH[OF Cons.prems] by simp
  next
    case False
    have set: "creationTime ?s' = call_time c"
      using Cons.prems False by (rule insertScan_creationTime_set)
    have "points (mapCloud ?s') \<noteq> []"
      using en nn vx False by (rule insertScan_map_nonempty)
    then have "creationTime (insertScans h cs ?s') = creationTime ?s'"
      using en nn vx by (rule insertScans_creationTime_kept[rotated 3])
    then show ?thesis using set False by simp
  qed
qed

lemma fresh_creationTime_once:
  "creationTime (insertScans exampleHelpers
      [scanCall 1 PointCloud_empty 100, scanCall 2 scan3 200, scanCall 3 scan3 300] fresh) = 200"
proof -
  have "points (mapCloud fresh) = []"
    by (simp add: example_defs)
  then show ?thesis
    using insertScans_creationTime[of exampleHelpers fresh
        "[scanCall 1 PointCloud_empty 100, scanCall 2 scan3 200, scanCall 3 scan3 300]"]
    by (simp add: example_defs IsEmpty_def)
qed

text \<open>
  C2. The claim: over any sequence of \<open>insertScan\<close> calls on a fresh submap the creation
  time is assigned once, by the first call whose scan makes the map non-empty, and no
  call with an empty scan changes it. That is \<open>insertScans_creationTime\<close> for part_000.
  Part_001 has no test for an empty scan: on a fresh submap two calls with empty scans at
  the times 100 and 200 each assign the creation time while the map stays empty, and a
  third call with three points at time 300 assigns it again.
\<close>

theorem insertScans_001_creationTime_reassigned:
  "creationTime fresh_001 = 0
   \<and> creationTime (insertScans_001 exampleHelpers [scanCall 1 PointCloud_empty 100] fresh_001) = 100
   \<and> isEmpty (insertScans_001 exampleHelpers [scanCall 1 PointCloud_empty 100] fresh_001)
   \<and> creationTime (insertScans_001 exampleHelpers
        [scanCall 1 PointCloud_empty 100, scanCall 2 PointCloud_empty 200] fresh_001) = 200
   \<and> isEmpty (insertScans_001 exampleHelpers
        [scanCall 1 PointCloud_empty 100, scanCall 2 PointCloud_empty 200] fresh_001)
   \<and> creationTime (insertScans_001 exampleHelpers
        [scanCall 1 PointCloud_empty 100, scanCall 2 PointCloud_empty 200, scanCall 3 scan3 300]
        fresh_001) = 300"
  by (simp add: Let_def insertScan_defs example_defs isEmpty_def)

section \<open>The dense map\<close>

text \<open>The first call of the \<open>insertScanDenseMap\<close> of part_001 on a fresh submap returns
  false.\<close>

theorem insertScanDenseMap_001_first_call_false:
  "\<not> fst (insertScanDenseMap_001 exampleHelpers 2 2 scan3 Transform_Identity 100 False fresh_001)"
  by (simp add: insertScanDenseMap_001_def example_defs)

text \<open>
  C3, as amended. The claim: every call of \<open>insertScanDenseMap\<close> returns true, the first
  call on a fresh submap included, after cropping the raw scan in the sensor frame,
  filtering by colour, transforming to the world frame and inserting into the dense map,
  with the timer-gated voxel carve when asked for. In part_000 every call returns true
  and leaves the submap with the dense cropper at the identity pose and with the dense
  map that results from inserting the cropped, colour-filtered and transformed scan and,
  when carving is asked for, from carving that map under the dense-map timer, which takes
  the timer the carve returns. In part_001 a call that finds the flag \<open>isFirstDenseScan\<close>
  set returns false and only clears the flag; a call that finds it cleared returns true,
  leaves it cleared and does the same as part_000, except that the colour filter runs
  on the raw scan before the crop.
\<close>

theorem insertScanDenseMap_returns:
  "insertScanDenseMap h tCheck tReset rawScan T time isPerformCarving s
     = (True,
        if isPerformCarving
        then s\<lparr>denseMapCropper := setPose Transform_Identity (denseMapCropper s),
               denseMap := fst (carve_VoxelizedPointCloud h tCheck tReset rawScan (translation T)
                                  (carving (denseMapBuilder (params s)))
                                  (VoxelizedPointCloud_insert
                                     (transform_cloud T (colorCropper_crop h
                                        (crop h (setPose Transform_Identity (denseMapCropper s)) rawScan)))
                                     (denseMap s))
                                  (carveDenseMapTimer s)),
               carveDenseMapTimer := snd (carve_VoxelizedPointCloud h tCheck tReset rawScan (translation T)
                                  (carving (denseMapBuilder (params s)))
                                  (VoxelizedPointCloud_insert
                                     (transform_cloud T (colorCropper_crop h
                                        (crop h (setPose Transform_Identity (denseMapCropper s)) rawScan)))
                                     (denseMap s))
                                  (carveDenseMapTimer s))\<rparr>
        else s\<lparr>denseMapCropper := setPose Transform_Identity (denseMapCropper s),
               denseMap := VoxelizedPointCloud_insert
                             (transform_cloud T (colorCropper_crop h
                                (crop h (setPose Transform_Identity (denseMapCropper s)) rawScan)))
                             (denseMap s)\<rparr>)
   \<and> (isFirstDenseScan s \<longrightarrow>
        insertScanDenseMap_001 h tCheck tReset rawScan T time isPerformCarving s
          = (False, s\<lparr>isFirstDenseScan := False\<rparr>))
   \<and> (\<not> isFirstDenseScan s \<longrightarrow>
        insertScanDenseMap_001 h tCheck tReset rawScan T time isPerformCarving s
          = (True,
             if isPerformCarving
             then s\<lparr>denseMapCropper := setPose Transform_Identity (denseMapCropper s),
                    denseMap := fst (carve_VoxelizedPointCloud h tCheck tReset rawScan (translation T)
                                  (carving (denseMapBuilder (params s)))
                                  (VoxelizedPointCloud_insert
                                     (transform_cloud T
                                        (crop h (setPose Transform_Identity (denseMapCropper s))
                                           (filterColor h rawScan)))
                                     (denseMap s))
                                  (carveDenseMapTimer s)),
                    carveDenseMapTimer := snd (carve_VoxelizedPointCloud h tCheck tReset rawScan
                                  (translation T) (carving (denseMapBuilder (params s)))
                                  (VoxelizedPointCloud_insert
                                     (transform_cloud T
                                        (crop h (setPose Transform_Identity (denseMapCropper s))
                                           (filterColor h rawScan)))
                                     (denseMap s))
                                  (carveDenseMapTimer s))\<rparr>
             else s\<lparr>denseMapCropper := setPose Transform_Identity (denseMapCropper s),
                    denseMap := VoxelizedPointCloud_insert
                                  (transform_cloud T
                                     (crop h (setPose Transform_Identity (denseMapCropper s))
                                        (filterColor h rawScan)))
                                  (denseMap s)\<rparr>)
        \<and> \<not> isFirstDenseScan (snd (insertScanDenseMap_001 h tCheck tReset rawScan T time
                                       isPerformCarving s)))"
  by (simp add: insertScanDenseMap_def insertScanDenseMap_001_def Let_def carveDenseMap_def
      split: prod.splits)

text \<open>On the fresh submaps, with three points one unit apart and a dense voxel size of 1:
  part_000 returns true and the dense map gets three voxels, of which the carve, asked
  for two seconds after the timer started, removes the first; part_001 returns false
  with the flag set, and with the flag cleared it returns true and does the same.\<close>

theorem insertScanDenseMap_returns_witness:
  "fst (insertScanDenseMap exampleHelpers 2 2 scan3 Transform_Identity 100 False fresh)
   \<and> map fst (voxels (denseMap (snd (insertScanDenseMap exampleHelpers 2 2 scan3 Transform_Identity
                                        100 False fresh)))) = [(0, 0, 0), (1, 0, 0), (2, 0, 0)]
   \<and> fst (insertScanDenseMap exampleHelpers 2 2 scan3 Transform_Identity 100 True fresh)
   \<and> map fst (voxels (denseMap (snd (insertScanDenseMap exampleHelpers 2 2 scan3 Transform_Identity
                                        100 True fresh)))) = [(1, 0, 0), (2, 0, 0)]
   \<and> isFirstDenseScan fresh_001
   \<and> insertScanDenseMap_001 exampleHelpers 2 2 scan3 Transform_Identity 100 False fresh_001
        = (False, fresh_001\<lparr>isFirstDenseScan := False\<rparr>)
   \<and> \<not> isFirstDenseScan (fresh_001\<lparr>isFirstDenseScan := False\<rparr>)
   \<and> fst (insertScanDenseMap_001 exampleHelpers 3 3 scan3 Transform_Identity 100 False
             (fresh_001\<lparr>isFirstDenseScan := False\<rparr>))
   \<and> map fst (voxels (denseMap (snd (insertScanDenseMap_001 exampleHelpers 3 3 scan3
             Transform_Identity 100 False (fresh_001\<lparr>isFirstDenseScan := False\<rparr>)))))
        = [(0, 0, 0), (1, 0, 0), (2, 0, 0)]
   \<and> map fst (voxels (denseMap (snd (insertScanDenseMap_001 exampleHelpers 3 3 scan3
             Transform_Identity 100 True (fresh_001\<lparr>isFirstDenseScan := False\<rparr>)))))
        = [(1, 0, 0), (2, 0, 0)]"
  using insertScanDenseMap_returns[where h = exampleHelpers and tCheck = 2 and tReset = 2
          and rawScan = scan3 and T = Transform_Identity and time = 100 and isPerformCarving = False
          and s = fresh]
        insertScanDenseMap_returns[where h = exampleHelpers and tCheck = 2 and tReset = 2
          and rawScan = scan3 and T = Transform_Identity and time = 100 and isPerformCarving = True
          and s = fresh]
        insertScanDenseMap_returns[where h = exampleHelpers and tCheck = 2 and tReset = 2
          and rawScan = scan3 and T = Transform_Identity and time = 100 and isPerformCarving = False
          and s = fresh_001]
        insertScanDenseMap_returns[where h = exampleHelpers and tCheck = 3 and tReset = 3
          and rawScan = scan3 and T = Transform_Identity and time = 100 and isPerformCarving = False
          and s = "fresh_001\<lparr>isFirstDenseScan := False\<rparr>"]
        insertScanDenseMap_returns[where h = exampleHelpers and tCheck = 3 and tReset = 3
          and rawScan = scan3 and T = Transform_Identity and time = 100 and isPerformCarving = True
          and s = "fresh_001\<lparr>isFirstDenseScan := False\<rparr>"]
  by (simp add: example_defs insertScan_defs dense_defs upt_0_3 Let_def carve_defs elapsedSec_def
      Timer_reset_def carveDenseMap_def)

section \<open>Carving is gated\<close>

text \<open>
  C5. The claim: a carve call leaves its target and the rest of the submap unchanged
  unless the target is non-empty and the target's carving timer shows at least
  \<open>carveSpaceEveryNsec\<close>; in particular a second carve call within \<open>carveSpaceEveryNsec\<close>
  of a successful one leaves the map cloud identical. For both overloads: with an empty
  target, or with less than the interval elapsed at the check, the call returns the
  target, the timer and the submap it was given. After a call that passed the gate, whose
  reset read the clock at \<open>tReset\<close>, a second call whose check reads the clock less than
  its interval later returns what the first call left, whatever its other arguments.
\<close>

theorem carve_gated:
  "(points cloud = [] \<or> elapsedSec tCheck timer < carveSpaceEveryNsec p \<longrightarrow>
      carve_PointCloud h tCheck tReset rawScan T cropVol p cloud timer s = (cloud, timer, s))
   \<and> (VoxelizedPointCloud_empty vcloud \<or> elapsedSec tCheck vtimer < carveSpaceEveryNsec p \<longrightarrow>
      carve_VoxelizedPointCloud h tCheck tReset rawScan sensorPosition p vcloud vtimer = (vcloud, vtimer))
   \<and> (points cloud \<noteq> [] \<and> carveSpaceEveryNsec p \<le> elapsedSec tCheck timer
        \<and> tCheckB - tReset < carveSpaceEveryNsec pB \<longrightarrow>
      (case carve_PointCloud h tCheck tReset rawScan T cropVol p cloud timer s of
         (cloud1, timer1, s1) \<Rightarrow>
           carve_PointCloud hB tCheckB tResetB rawScanB TB cropVolB pB cloud1 timer1 s1
             = (cloud1, timer1, s1)))
   \<and> (\<not> VoxelizedPointCloud_empty vcloud \<and> carveSpaceEveryNsec p \<le> elapsedSec tCheck vtimer
        \<and> tCheckB - tReset < carveSpaceEveryNsec pB \<longrightarrow>
      (case carve_VoxelizedPointCloud h tCheck tReset rawScan sensorPosition p vcloud vtimer of
         (vcloud1, vtimer1) \<Rightarrow>
           carve_VoxelizedPointCloud hB tCheckB tResetB rawScanB sensorPositionB pB vcloud1 vtimer1
             = (vcloud1, vtimer1)))"
  by (simp add: carve_PointCloud_def carve_VoxelizedPointCloud_def Let_def elapsedSec_def
      Timer_reset_def)

text \<open>A carve half a second after the timer started is skipped; a carve of an empty dense
  map is skipped; a carve two seconds after the timer started removes the first point of
  three and resets the timer at 2.5; a carve at 3 is skipped. The same for the dense map
  of the populated submap, which loses the first of its three voxels.\<close>

theorem carve_gated_witness:
  "elapsedSec (1 / 2) (Timer_new 0) < carveSpaceEveryNsec (carving (mapBuilder exampleParams))
   \<and> carve_PointCloud exampleHelpers (1 / 2) 1 scan3 Transform_Identity (mapBuilderCropper fresh)
         (carving (mapBuilder exampleParams)) scan3 (Timer_new 0) fresh = (scan3, Timer_new 0, fresh)
   \<and> VoxelizedPointCloud_empty (denseMap fresh)
   \<and> carve_VoxelizedPointCloud exampleHelpers 2 (5 / 2) scan3 (0, 0, 0)
         (carving (mapBuilder exampleParams)) (denseMap fresh) (Timer_new 0) = (denseMap fresh, Timer_new 0)
   \<and> points scan3 \<noteq> []
   \<and> carveSpaceEveryNsec (carving (mapBuilder exampleParams)) \<le> elapsedSec 2 (Timer_new 0)
   \<and> 3 - 5 / 2 < carveSpaceEveryNsec (carving (mapBuilder exampleParams))
   \<and> fst (carve_PointCloud exampleHelpers 2 (5 / 2) scan3 Transform_Identity (mapBuilderCropper fresh)
         (carving (mapBuilder exampleParams)) scan3 (Timer_new 0) fresh) = cloudOf [(1, 0, 0), (2, 0, 0)]
   \<and> fst (carve_PointCloud exampleHelpers 3 4 scan3 Transform_Identity (mapBuilderCropper fresh)
         (carving (mapBuilder exampleParams)) (cloudOf [(1, 0, 0), (2, 0, 0)])
         (Timer_reset (5 / 2) (Timer_new 0)) fresh) = cloudOf [(1, 0, 0), (2, 0, 0)]
   \<and> \<not> VoxelizedPointCloud_empty (denseMap populated)
   \<and> map fst (voxels (denseMap populated)) = [(0, 0, 0), (1, 0, 0), (2, 0, 0)]
   \<and> map fst (voxels (fst (carve_VoxelizedPointCloud exampleHelpers 2 (5 / 2) scan3 (0, 0, 0)
         (carving (mapBuilder exampleParams)) (denseMap populated) (Timer_new 0))))
         = [(1, 0, 0), (2, 0, 0)]
   \<and> carve_VoxelizedPointCloud exampleHelpers 3 4 scan3 (0, 0, 0) (carving (mapBuilder exampleParams))
         (fst (carve_VoxelizedPointCloud exampleHelpers 2 (5 / 2) scan3 (0, 0, 0)
                 (carving (mapBuilder exampleParams)) (denseMap populated) (Timer_new 0)))
         (Timer_reset (5 / 2) (Timer_new 0))
       = (fst (carve_VoxelizedPointCloud exampleHelpers 2 (5 / 2) scan3 (0, 0, 0)
                 (carving (mapBuilder exampleParams)) (denseMap populated) (Timer_new 0)),
          Timer_reset (5 / 2) (Timer_new 0))"
  using carve_gated[where h = exampleHelpers and tCheck = "1 / 2" and tReset = 1 and rawScan = scan3
          and T = Transform_Identity and cropVol = "mapBuilderCropper fresh"
          and p = "carving (mapBuilder exampleParams)" and cloud = scan3 and timer = "Timer_new 0"
          and s = fresh]
        carve_gated[where h = exampleHelpers and tCheck = 2 and tReset = "5 / 2" and rawScan = scan3
          and T = Transform_Identity and cropVol = "mapBuilderCropper fresh"
          and p = "carving (mapBuilder exampleParams)" and cloud = scan3 and timer = "Timer_new 0"
          and s = fresh and vcloud = "denseMap fresh" and vtimer = "Timer_new 0"
          and sensorPosition = "(0, 0, 0)" and tCheckB = 3 and tResetB = 4
          and pB = "carving (mapBuilder exampleParams)" and hB = exampleHelpers and rawScanB = scan3
          and TB = Transform_Identity and cropVolB = "mapBuilderCropper fresh"]
        carve_gated[where h = exampleHelpers and tCheck = 2 and tReset = "5 / 2" and rawScan = scan3
          and p = "carving (mapBuilder exampleParams)" and vcloud = "denseMap populated"
          and vtimer = "Timer_new 0" and sensorPosition = "(0, 0, 0)" and tCheckB = 3 and tResetB = 4
          and pB = "carving (mapBuilder exampleParams)" and hB = exampleHelpers and rawScanB = scan3
          and sensorPositionB = "(0, 0, 0)"]
  by (simp add: example_defs carve_defs upt_0_3 elapsedSec_def Timer_reset_def Let_def
      populated_defs insertScan_defs dense_defs feature_defs)

section \<open>Changing the parameters\<close>

text \<open>In part_001 the voxel index that \<open>computeFeatures\<close> built is still there after
  \<open>setParameters\<close>.\<close>

theorem setParameters_001_keeps_voxelMap:
  "getVoxelMap (setParameters_001 exampleHelpers exampleParams populated_001) = getVoxelMap populated_001
   \<and> layers (getVoxelMap (setParameters_001 exampleHelpers exampleParams populated_001)) \<noteq> []"
  by (simp add: setParameters_001_def getVoxelMap_def populated_defs Let_def insertScan_defs
      example_defs dense_defs feature_defs upt_0_3)

text \<open>
  C6, as amended. The claim: after \<open>setParameters\<close> the dense map and the voxel map are
  both rebuilt empty with the new voxel sizes, so that \<open>getDenseMap().isEmpty()\<close> holds
  and the index built by \<open>computeFeatures\<close> is gone. In both variants the dense map
  after \<open>setParameters\<close> is empty and has the new dense voxel size. In part_000 the
  voxel map is rebuilt too, empty, with the expansion factor times the new map voxel size.
  In part_001 \<open>setParameters\<close> does not touch the voxel map.
\<close>

theorem setParameters_rebuilds:
  "VoxelizedPointCloud_empty (getDenseMap (setParameters h p s))
   \<and> voxelSize3 (getDenseMap (setParameters h p s)) = Vector3d_Constant (mapVoxelSize (denseMapBuilder p))
   \<and> layers (getVoxelMap (setParameters h p s)) = []
   \<and> voxelMapSize (getVoxelMap (setParameters h p s))
        = Vector3d_Constant (voxelExpansionFactorAdjacencyBasedRevisiting h * mapVoxelSize (mapBuilder p))
   \<and> VoxelizedPointCloud_empty (getDenseMap (setParameters_001 h p s))
   \<and> voxelSize3 (getDenseMap (setParameters_001 h p s))
        = Vector3d_Constant (mapVoxelSize (denseMapBuilder p))
   \<and> getVoxelMap (setParameters_001 h p s) = getVoxelMap s"
  by (simp add: setParameters_def setParameters_001_def update_def update_001_def getDenseMap_def
      getVoxelMap_def VoxelizedPointCloud_empty_def VoxelizedPointCloud_new_def VoxelMap_new_def)

section \<open>Feature computation is gated\<close>

text \<open>No other operation resets the feature pointer once it is set.\<close>

lemma feature_persists:
  "feature (snd (insertScan h clk rawScan pre T time carveIt s)) = feature s"
  "feature (snd (insertScanDenseMap h tCheck tReset rawScan T time carveIt s)) = feature s"
  "feature (transform h T s) = feature s"
  "feature (setParameters h p s) = feature s"
  "feature (computeSubmapCenter s) = feature s"
  "feature (setMapToSubmapOrigin T s) = feature s"
  by (simp_all add: insertScan_def insertScan_body_def carveAndMeasure_def carve_PointCloud_def
      insertScanDenseMap_def carveDenseMap_def transform_def setParameters_def update_def
      computeSubmapCenter_def setMapToSubmapOrigin_def Let_def split: prod.splits)

text \<open>
  C7. The claim: once \<open>computeFeatures\<close> has completed, a second call made before
  \<open>minSecondsBetweenFeatureComputation\<close> has elapsed on the feature timer changes
  nothing: the sparse cloud, the descriptors and the voxel map are as before. After any
  call the feature pointer is set; a call on a state with the pointer set and less than
  the interval on the feature timer returns the state it was given; so does a call that
  follows a call and finds less than the interval on the timer.
\<close>

theorem computeFeatures_gated:
  "feature (computeFeatures h tCheck tReset s) \<noteq> None
   \<and> (feature s \<noteq> None
        \<and> elapsedSec tCheckB (featureTimer s) < minSecondsBetweenFeatureComputation (submaps (params s)) \<longrightarrow>
      computeFeatures hB tCheckB tResetB s = s)
   \<and> (elapsedSec tCheckB (featureTimer (computeFeatures h tCheck tReset s))
          < minSecondsBetweenFeatureComputation (submaps (params (computeFeatures h tCheck tReset s))) \<longrightarrow>
      computeFeatures hB tCheckB tResetB (computeFeatures h tCheck tReset s)
        = computeFeatures h tCheck tReset s)"
proof -
  have done_once: "feature (computeFeatures h tCheck tReset s) \<noteq> None"
    by (simp add: computeFeatures_def Let_def)
  have gate: "computeFeatures hB tCheckB tResetB x = x"
    if "feature x \<noteq> None"
      and "elapsedSec tCheckB (featureTimer x) < minSecondsBetweenFeatureComputation (submaps (params x))"
    for x
    using that by (simp add: computeFeatures_def)
  show ?thesis
    using done_once gate by blast
qed

text \<open>The features of the populated submap were computed with the reset at 11; a call
  that checks at 12, with an interval of 5, returns the submap as it is.\<close>

theorem computeFeatures_gated_witness:
  "getFeatures scanned = None
   \<and> feature populated \<noteq> None
   \<and> elapsedSec 12 (featureTimer populated)
        < minSecondsBetweenFeatureComputation (submaps (params populated))
   \<and> computeFeatures exampleHelpers 12 13 populated = populated
   \<and> sparseMapCloud (computeFeatures exampleHelpers 12 13 populated) = sparseMapCloud populated
   \<and> voxelMap (computeFeatures exampleHelpers 12 13 populated) = voxelMap populated"
  using computeFeatures_gated[where h = exampleHelpers and tCheck = 10 and tReset = 11
          and s = scanned and hB = exampleHelpers and tCheckB = 12 and tResetB = 13]
        computeFeatures_gated[where s = populated and hB = exampleHelpers and tCheckB = 12
          and tResetB = 13 and h = exampleHelpers and tCheck = 10 and tReset = 11]
  by (simp add: populated_defs Let_def insertScan_defs example_defs dense_defs feature_defs upt_0_3
      getFeatures_def)

section \<open>The transform\<close>

text \<open>
  C8. The claim: after \<open>computeSubmapCenter()\<close> and then \<open>transform(T)\<close>,
  \<open>getMapToSubmapCenter()\<close> returns \<open>T\<close> applied to the centroid computed before the
  transform. The centroid is the centre of the map cloud, which is also what the getter
  returns between the two calls.
\<close>

theorem center_after_transform:
  "getMapToSubmapCenter (transform h T (computeSubmapCenter s)) = Transform_apply T (GetCenter (mapCloud s))
   \<and> getMapToSubmapCenter (transform h T (computeSubmapCenter s))
        = Transform_apply T (getMapToSubmapCenter (computeSubmapCenter s))"
  by (simp add: getMapToSubmapCenter_def transform_def computeSubmapCenter_def getMapPointCloudCopy_def)

text \<open>The centre of the populated submap, (2, 0, 0), moved by three units along y.\<close>

lemma example_center_moves:
  "getMapToSubmapCenter (computeSubmapCenter populated) = (2, 0, 0)
   \<and> getMapToSubmapCenter (transform exampleHelpers (translate (0, 3, 0)) (computeSubmapCenter populated))
        = (2, 3, 0)"
  by (simp add: getMapToSubmapCenter_def transform_def computeSubmapCenter_def GetCenter_def
      populated_defs Let_def insertScan_defs example_defs dense_defs feature_defs upt_0_3)

text \<open>
  C9. The claim: \<open>transform(T)\<close> leaves the id, the parent id, \<open>mapToSubmap\<close> (hence
  \<open>getMapToSubmapOrigin\<close>), the creation time, the feature descriptors and the voxel map
  unchanged, and writes only the sparse cloud, the map cloud, the dense map,
  \<open>mapToRangeSensor\<close> and the centre: putting these five back gives the state before.
\<close>

theorem transform_frame:
  "id_f (transform h T s) = id_f s
   \<and> parentId (transform h T s) = parentId s
   \<and> mapToSubmap (transform h T s) = mapToSubmap s
   \<and> getMapToSubmapOrigin (transform h T s) = getMapToSubmapOrigin s
   \<and> creationTime (transform h T s) = creationTime s
   \<and> feature (transform h T s) = feature s
   \<and> voxelMap (transform h T s) = voxelMap s
   \<and> (transform h T s)\<lparr>sparseMapCloud := sparseMapCloud s, mapCloud := mapCloud s,
         denseMap := denseMap s, mapToRangeSensor := mapToRangeSensor s,
         submapCenter := submapCenter s\<rparr> = s"
  by (simp add: transform_def getMapToSubmapOrigin_def)

section \<open>Transforming there and back\<close>




















section \<open>The copy constructor\<close>

text \<open>
  C10. The claim: copy-constructing from a populated submap copies only the id, the
  parent id, the parameters, \<open>mapToSubmap\<close> and \<open>mapToRangeSensor\<close>, and the containers
  of the copy are freshly initialised: the copy is empty, and so are its dense map, its
  sparse cloud and its voxel map, and it has no features. Two sources that agree on the
  five copied members give the same copy.
\<close>

theorem Submap_copy_fresh:
  "id_f (Submap_copy h d now other) = id_f other
   \<and> parentId (Submap_copy h d now other) = parentId other
   \<and> params (Submap_copy h d now other) = params other
   \<and> mapToSubmap (Submap_copy h d now other) = mapToSubmap other
   \<and> mapToRangeSensor (Submap_copy h d now other) = mapToRangeSensor other
   \<and> isEmpty (Submap_copy h d now other)
   \<and> VoxelizedPointCloud_empty (getDenseMap (Submap_copy h d now other))
   \<and> IsEmpty (getSparseMapPointCloud (Submap_copy h d now other))
   \<and> getFeatures (Submap_copy h d now other) = None
   \<and> layers (getVoxelMap (Submap_copy h d now other)) = []
   \<and> (id_f otherB = id_f other \<and> parentId otherB = parentId other \<and> params otherB = params other
        \<and> mapToSubmap otherB = mapToSubmap other \<and> mapToRangeSensor otherB = mapToRangeSensor other \<longrightarrow>
      Submap_copy h d now otherB = Submap_copy h d now other)"
  by (simp add: Submap_copy_def Submap_new_def update_def defaultMembers_def Let_def isEmpty_def
      getDenseMap_def getSparseMapPointCloud_def getFeatures_def getVoxelMap_def IsEmpty_def
      PointCloud_empty_def VoxelizedPointCloud_empty_def VoxelizedPointCloud_new_def VoxelMap_new_def)

text \<open>The populated submap has points, dense voxels, a sparse cloud and features; its
  copy has none of them, and is the copy of a fresh submap with the same sensor pose.\<close>

theorem Submap_copy_fresh_witness:
  "\<not> isEmpty populated
   \<and> \<not> VoxelizedPointCloud_empty (getDenseMap populated)
   \<and> \<not> IsEmpty (getSparseMapPointCloud populated)
   \<and> getFeatures populated \<noteq> None
   \<and> isEmpty (Submap_copy exampleHelpers exampleInit 20 populated)
   \<and> VoxelizedPointCloud_empty (getDenseMap (Submap_copy exampleHelpers exampleInit 20 populated))
   \<and> IsEmpty (getSparseMapPointCloud (Submap_copy exampleHelpers exampleInit 20 populated))
   \<and> getFeatures (Submap_copy exampleHelpers exampleInit 20 populated) = None
   \<and> mapToRangeSensor (Submap_copy exampleHelpers exampleInit 20 populated) = translate (1, 0, 0)
   \<and> fresh\<lparr>mapToRangeSensor := translate (1, 0, 0)\<rparr> \<noteq> populated
   \<and> Submap_copy exampleHelpers exampleInit 20 (fresh\<lparr>mapToRangeSensor := translate (1, 0, 0)\<rparr>)
        = Submap_copy exampleHelpers exampleInit 20 populated"
  using Submap_copy_fresh[where h = exampleHelpers and d = exampleInit and now = 20
          and other = populated and otherB = "fresh\<lparr>mapToRangeSensor := translate (1, 0, 0)\<rparr>"]
  by (simp add: populated_defs Let_def insertScan_defs example_defs dense_defs feature_defs upt_0_3
      getFeatures_def isEmpty_def getDenseMap_def getSparseMapPointCloud_def
      VoxelizedPointCloud_empty_def)

end
